theory Spec2Isabelle
  imports Main
begin

section \<open>JavaScript values\<close>

text \<open>
  The values that reach the HANA adapter (\<^verbatim>\<open>src/adapters/hdb.js\<close>) and the mixin
  entry point. A number is modelled by an integer: \<open>Num n\<close> stands for the Number value
  \<open>n\<close> when \<open>n\<close> is a safe integer (magnitude below \<open>2^53\<close>), on which \<^verbatim>\<open>ToString\<close> is
  the decimal numeral. An object is a plain data object, with \<^verbatim>\<open>Object.prototype\<close> as its
  prototype: the list of its own enumerable string-keyed properties in the order
  \<^verbatim>\<open>Object.entries\<close> lists them; keys are pairwise distinct. No value is a function.
  A string is the list of its code units.
\<close>

datatype jsval =
    Undefined
  | Null
  | Bool bool
  | Num int
  | Str string
  | Arr "jsval list"
  | Obj "(string \<times> jsval) list"

abbreviation squote :: string where
  "squote \<equiv> [CHR 0x27]"

fun show_nat :: "nat \<Rightarrow> string" where
  "show_nat n =
     (if n < 10 then [''0123456789'' ! n]
      else show_nat (n div 10) @ [''0123456789'' ! (n mod 10)])"

definition show_int :: "int \<Rightarrow> string" where
  "show_int i = (if i < 0 then ''-'' @ show_nat (nat (- i)) else show_nat (nat i))"

text \<open>\<^verbatim>\<open>Array.prototype.join\<close> on strings.\<close>

fun join :: "string \<Rightarrow> string list \<Rightarrow> string" where
  "join sep [] = []"
| "join sep [x] = x"
| "join sep (x # y # ys) = x @ sep @ join sep (y # ys)"

text \<open>What a call can throw; \<open>BackendError\<close> is an error the database driver throws.\<close>

datatype js_error = ReferenceError | TypeError | BackendError string

text \<open>
  The text of a value where converting it to a string returns: an array is its
  elements joined by commas with \<^verbatim>\<open>null\<close> and \<^verbatim>\<open>undefined\<close> rendered empty, a plain
  object is \<^verbatim>\<open>[object Object]\<close>.
\<close>

fun js_to_string :: "jsval \<Rightarrow> string" where
  "js_to_string Undefined = ''undefined''"
| "js_to_string Null = ''null''"
| "js_to_string (Bool b) = (if b then ''true'' else ''false'')"
| "js_to_string (Num n) = show_int n"
| "js_to_string (Str s) = s"
| "js_to_string (Arr xs) =
     join '','' (map (\<lambda>x. case x of Undefined \<Rightarrow> [] | Null \<Rightarrow> [] | _ \<Rightarrow> js_to_string x) xs)"
| "js_to_string (Obj ps) = ''[object Object]''"

text \<open>
  Where the conversion throws. String concatenation, a template literal and a computed
  property key convert an object by calling its \<^verbatim>\<open>toString\<close> and \<^verbatim>\<open>valueOf\<close> methods. An
  own property \<^verbatim>\<open>toString\<close> hides the inherited method and, being data, cannot be
  called; the inherited \<^verbatim>\<open>valueOf\<close> returns the object itself, so no primitive is
  reached and the conversion throws a TypeError. An array converts by joining the
  conversions of its elements, and throws where one of them does.
\<close>

fun to_string_throws :: "jsval \<Rightarrow> bool" where
  "to_string_throws (Obj ps) = (''toString'' \<in> set (map fst ps))"
| "to_string_throws (Arr xs) =
     list_ex (\<lambda>x. x \<noteq> Undefined \<and> x \<noteq> Null \<and> to_string_throws x) xs"
| "to_string_throws v = False"

definition to_text :: "jsval \<Rightarrow> js_error + string" where
  "to_text v = (if to_string_throws v then Inl TypeError else Inr (js_to_string v))"

text \<open>\<^verbatim>\<open>pre + v + post\<close> for texts \<open>pre\<close> and \<open>post\<close>.\<close>

definition concat_value :: "string \<Rightarrow> jsval \<Rightarrow> string \<Rightarrow> js_error + string" where
  "concat_value pre v post =
    (case to_text v of Inl err \<Rightarrow> Inl err | Inr t \<Rightarrow> Inr (pre @ t @ post))"

text \<open>\<^verbatim>\<open>ToBoolean\<close>: what \<^verbatim>\<open>if (v)\<close> and \<^verbatim>\<open>v && ...\<close> test.\<close>

fun truthy :: "jsval \<Rightarrow> bool" where
  "truthy Undefined = False"
| "truthy Null = False"
| "truthy (Bool b) = b"
| "truthy (Num n) = (n \<noteq> 0)"
| "truthy (Str s) = (s \<noteq> [])"
| "truthy (Arr xs) = True"
| "truthy (Obj ps) = True"

text \<open>\<^verbatim>\<open>typeof v == "object" && v != null\<close>.\<close>

fun is_nonnull_object :: "jsval \<Rightarrow> bool" where
  "is_nonnull_object (Arr xs) = True"
| "is_nonnull_object (Obj ps) = True"
| "is_nonnull_object v = False"

text \<open>\<^verbatim>\<open>Array.isArray(v)\<close>, \<^verbatim>\<open>typeof v == "string"\<close> and \<^verbatim>\<open>typeof v == "object"\<close>.\<close>

fun is_array :: "jsval \<Rightarrow> bool" where
  "is_array (Arr xs) = True"
| "is_array v = False"

fun typeof_string :: "jsval \<Rightarrow> bool" where
  "typeof_string (Str s) = True"
| "typeof_string v = False"

fun typeof_object :: "jsval \<Rightarrow> bool" where
  "typeof_object Null = True"
| "typeof_object (Arr xs) = True"
| "typeof_object (Obj ps) = True"
| "typeof_object v = False"

text \<open>
  Reading a property \<^verbatim>\<open>v.p\<close> under a name that \<^verbatim>\<open>Object.prototype\<close> does not define
  (\<^verbatim>\<open>$in\<close>, \<^verbatim>\<open>$gt\<close>, ..., \<^verbatim>\<open>toHexString\<close>, \<^verbatim>\<open>cache\<close>, \<^verbatim>\<open>enabled\<close>, \<^verbatim>\<open>eventName\<close>, \<^verbatim>\<open>0\<close>): an
  object gives its own property, an absent property reads as \<^verbatim>\<open>undefined\<close>, and no
  array or primitive has a property of these names (an array's own properties are its
  indices and \<^verbatim>\<open>length\<close>; index \<^verbatim>\<open>0\<close> is read by \<open>index0\<close> below).
\<close>

fun get_prop :: "jsval \<Rightarrow> string \<Rightarrow> jsval" where
  "get_prop (Obj ps) p = (case map_of ps p of Some x \<Rightarrow> x | None \<Rightarrow> Undefined)"
| "get_prop v p = Undefined"

section \<open>The adapter's inputs\<close>

text \<open>
  An element of \<^verbatim>\<open>this.service.$fields\<close>; the adapter reads its \<^verbatim>\<open>columnName\<close> and
  \<^verbatim>\<open>columnType\<close>. The list is built outside the adapter and is a parameter here.
\<close>

record field =
  columnName :: string
  columnType :: string

text \<open>The \<^verbatim>\<open>sort\<close> parameter: a string, an array of strings or a sort object.\<close>

datatype sortspec =
    SortStr string
  | SortArr "string list"
  | SortObj "(string \<times> jsval) list"

text \<open>
  The \<^verbatim>\<open>params\<close> object of \<^verbatim>\<open>find\<close> and \<^verbatim>\<open>createQuery\<close>; \<open>None\<close> is an absent
  (\<^verbatim>\<open>undefined\<close>) property.
\<close>

record params =
  query :: "(string \<times> jsval) list option"
  sort :: "sortspec option"

section \<open>createQuery\<close>

text \<open>
  \<^verbatim>\<open>Object.assign({}, params.query)\<close> (hdb.js, line 614) assigns every own enumerable
  property of the query to a fresh object, in order. The assignment to the key
  \<^verbatim>\<open>__proto__\<close> reaches the setter of \<^verbatim>\<open>Object.prototype\<close> and creates no property, so
  an own key \<^verbatim>\<open>__proto__\<close> of the query is not among the entries of the copy.
\<close>

definition object_assign :: "(string \<times> jsval) list \<Rightarrow> (string \<times> jsval) list" where
  "object_assign src = filter (\<lambda>entry. fst entry \<noteq> ''__proto__'') src"

text \<open>
  The callback of \<^verbatim>\<open>Object.entries(query).forEach\<close> in \<^verbatim>\<open>createQuery\<close> has two
  parts. The first (hdb.js, lines 617-624) looks the key up among the field
  definitions by \<^verbatim>\<open>columnName\<close>, replaces the keys \<^verbatim>\<open>id\<close> and \<^verbatim>\<open>_id\<close> by \<^verbatim>\<open>_ID\<close>, and
  decides \<^verbatim>\<open>keyIsString\<close>.
\<close>

definition resolve_key :: "field list \<Rightarrow> string \<Rightarrow> string \<times> bool" where
  "resolve_key fs key0 =
    (let keyDef = List.find (\<lambda>elem. columnName elem = key0) fs;
         isId = (key0 = ''id'' \<or> key0 = ''_id'');
         key = (if isId then ''_ID'' else key0);
         keyIsString =
           (isId \<or> (case keyDef of Some d \<Rightarrow> columnType d = ''string'' | None \<Rightarrow> False))
     in (key, keyIsString))"

text \<open>
  The second (hdb.js, lines 625-689) appends to the text \<open>q\<close> accumulated so far what
  the value renders to: the first branch of the chain whose test holds decides. A
  comparison concatenates the operand, which throws where the operand does not
  convert to a string.
\<close>

definition render_condition :: "string \<Rightarrow> string \<Rightarrow> bool \<Rightarrow> jsval \<Rightarrow> js_error + string" where
  "render_condition q key keyIsString value =
      (if is_nonnull_object value then
         (if truthy (get_prop value ''$in'') \<and> is_array (get_prop value ''$in'') then
            Inr (q @ ''IMPLEMENTAR'')
          else if truthy (get_prop value ''$nin'') \<and> is_array (get_prop value ''$nin'') then
            Inr (q @ ''IMPLEMENTAR'')
          else if truthy (get_prop value ''$gt'') then
            (if keyIsString then
               concat_value (q @ key @ '' > '' @ squote) (get_prop value ''$gt'') (squote @ '' AND '')
             else concat_value (q @ key @ '' > '') (get_prop value ''$gt'') '' AND '')
          else if truthy (get_prop value ''$gte'') then
            (if keyIsString then
               concat_value (q @ key @ '' >= '' @ squote) (get_prop value ''$gte'') (squote @ '' AND '')
             else concat_value (q @ key @ '' >= '') (get_prop value ''$gte'') '' AND '')
          else if truthy (get_prop value ''$lt'') then
            (if keyIsString then
               concat_value (q @ key @ '' < '' @ squote) (get_prop value ''$lt'') (squote @ '' AND '')
             else concat_value (q @ key @ '' < '') (get_prop value ''$lt'') '' AND '')
          else if truthy (get_prop value ''$lte'') then
            (if keyIsString then
               concat_value (q @ key @ '' <= '' @ squote) (get_prop value ''$lte'') (squote @ '' AND '')
             else concat_value (q @ key @ '' <= '') (get_prop value ''$lte'') '' AND '')
          else if truthy (get_prop value ''$eq'') then
            (if keyIsString then
               concat_value (q @ key @ '' = '' @ squote) (get_prop value ''$eq'') (squote @ '' AND '')
             else concat_value (q @ key @ '' = '') (get_prop value ''$eq'') '' AND '')
          else if truthy (get_prop value ''$ne'') then
            (if keyIsString then
               concat_value (q @ key @ '' != '' @ squote) (get_prop value ''$ne'') (squote @ '' AND '')
             else concat_value (q @ key @ '' != '') (get_prop value ''$ne'') '' AND '')
          else if get_prop value ''$exists'' = Bool True then
            Inr (q @ ''IMPLEMENTAR'')
          else if get_prop value ''$exists'' = Bool False then
            Inr (q @ ''IMPLEMENTAR'')
          else if truthy (get_prop value ''$raw'') then
            (if typeof_string (get_prop value ''$raw'') then Inr (q @ ''IMPLEMENTAR'')
             else if typeof_object (get_prop value ''$raw'') then Inr (q @ ''IMPLEMENTAR'')
             else Inr q)
          else Inr q)
       else
         (if keyIsString then concat_value (q @ key @ '' = '' @ squote) value (squote @ '' AND '')
          else concat_value (q @ key @ '' = '') value '' AND ''))"

definition createQuery_entry :: "field list \<Rightarrow> string \<Rightarrow> string \<times> jsval \<Rightarrow> js_error + string" where
  "createQuery_entry fs q entry =
    (case resolve_key fs (fst entry) of
       (key, keyIsString) \<Rightarrow> render_condition q key keyIsString (snd entry))"

text \<open>The \<^verbatim>\<open>forEach\<close> over the entries: an error of the callback ends the loop.\<close>

fun createQuery_entries :: "field list \<Rightarrow> string \<Rightarrow> (string \<times> jsval) list \<Rightarrow> js_error + string" where
  "createQuery_entries fs q [] = Inr q"
| "createQuery_entries fs q (entry # rest) =
     (case createQuery_entry fs q entry of
        Inl err \<Rightarrow> Inl err
      | Inr q' \<Rightarrow> createQuery_entries fs q' rest)"

text \<open>
  \<^verbatim>\<open>createQuery(params)\<close> (hdb.js, lines 609-733): the entries of the copy of
  \<^verbatim>\<open>params.query\<close> are folded from \<^verbatim>\<open>'WHERE '\<close>; a text that grew loses its last five
  code units (\<^verbatim>\<open>q.substring(0, q.length - 5)\<close>), an unchanged one gives the empty
  string. \<^verbatim>\<open>params.sort\<close> is not read.
\<close>

definition createQuery :: "field list \<Rightarrow> params option \<Rightarrow> js_error + string" where
  "createQuery fs ps =
    (case (case ps of
             None \<Rightarrow> Inr ''WHERE ''
           | Some p \<Rightarrow>
               createQuery_entries fs ''WHERE ''
                 (case query p of Some qu \<Rightarrow> object_assign qu | None \<Rightarrow> [])) of
       Inl err \<Rightarrow> Inl err
     | Inr q \<Rightarrow> Inr (if q \<noteq> ''WHERE '' then take (length q - 5) q else []))"

section \<open>find, count and insert\<close>

text \<open>
  The adapter options the three operations read. \<^verbatim>\<open>opts?.schema ? opts.schema : undefined\<close>
  yields \<^verbatim>\<open>undefined\<close> for an absent or empty name, and concatenation renders that as
  the text \<^verbatim>\<open>undefined\<close>.
\<close>

record adapter_opts =
  schema :: "string option"
  collection :: "string option"

definition opt_text :: "string option \<Rightarrow> string" where
  "opt_text x = (case x of None \<Rightarrow> ''undefined'' | Some s \<Rightarrow> if s \<noteq> [] then s else ''undefined'')"

text \<open>
  The statement \<^verbatim>\<open>find(params)\<close> hands to \<^verbatim>\<open>connectionObj.exec\<close> (hdb.js, lines
  121-132): the WHERE clause of \<^verbatim>\<open>createQuery\<close> is appended when \<^verbatim>\<open>params.query\<close> is
  present and the clause is not empty. \<^verbatim>\<open>find\<close> reads nothing else of \<^verbatim>\<open>params\<close>; an
  error of \<^verbatim>\<open>createQuery\<close> leaves \<^verbatim>\<open>find\<close>.
\<close>

definition find_sqlQuery :: "adapter_opts \<Rightarrow> field list \<Rightarrow> params option \<Rightarrow> js_error + string" where
  "find_sqlQuery opts fs ps =
    (let sqlQuery = ''select * from '' @ opt_text (schema opts) @ ''.'' @ opt_text (collection opts)
     in case ps of
          None \<Rightarrow> Inr sqlQuery
        | Some p \<Rightarrow>
            (case query p of
               None \<Rightarrow> Inr sqlQuery
             | Some qu \<Rightarrow>
                 (case createQuery fs ps of
                    Inl err \<Rightarrow> Inl err
                  | Inr clause \<Rightarrow>
                      Inr (if clause \<noteq> [] then sqlQuery @ '' '' @ clause else sqlQuery))))"

text \<open>
  The backend is the function \<^verbatim>\<open>connectionObj.exec\<close>: from the statement to the value
  it returns or the error it throws; an adapter that never connected has no
  \<^verbatim>\<open>connectionObj\<close> (\<open>None\<close>), and calling \<^verbatim>\<open>exec\<close> on it throws a TypeError.
\<close>

type_synonym backend = "(string \<Rightarrow> js_error + jsval) option"

definition exec_on :: "backend \<Rightarrow> string \<Rightarrow> js_error + jsval" where
  "exec_on conn sql = (case conn of None \<Rightarrow> Inl TypeError | Some exec \<Rightarrow> exec sql)"

text \<open>\<^verbatim>\<open>v[0]\<close> on a truthy value, and \<^verbatim>\<open>Object.values(v)\<close>, which throws on
  \<^verbatim>\<open>undefined\<close> and \<^verbatim>\<open>null\<close>.\<close>

fun index0 :: "jsval \<Rightarrow> jsval" where
  "index0 (Arr (x # xs)) = x"
| "index0 (Str (c # cs)) = Str [c]"
| "index0 (Obj ps) = get_prop (Obj ps) ''0''"
| "index0 v = Undefined"

fun object_values :: "jsval \<Rightarrow> js_error + jsval list" where
  "object_values Undefined = Inl TypeError"
| "object_values Null = Inl TypeError"
| "object_values (Obj ps) = Inr (map snd ps)"
| "object_values (Arr xs) = Inr xs"
| "object_values (Str s) = Inr (map (\<lambda>c. Str [c]) s)"
| "object_values v = Inr []"

text \<open>
  \<^verbatim>\<open>count(params)\<close> (hdb.js, lines 205-228). Both \<^verbatim>\<open>try\<close> blocks have an empty
  \<^verbatim>\<open>catch\<close>: an error of \<^verbatim>\<open>exec\<close> leaves \<^verbatim>\<open>queryResult\<close> undefined, an error while
  reading the first value of the first row falls through, and either way the function
  returns \<^verbatim>\<open>0\<close>. \<^verbatim>\<open>params\<close> is not read.
\<close>

definition count_hdb :: "adapter_opts \<Rightarrow> backend \<Rightarrow> params option \<Rightarrow> jsval" where
  "count_hdb opts conn ps =
    (let sqlQuery = ''select count(*) from '' @ opt_text (schema opts) @ ''.'' @ opt_text (collection opts);
         queryResult = (case exec_on conn sqlQuery of Inl err \<Rightarrow> Undefined | Inr r \<Rightarrow> r)
     in if truthy queryResult then
          (case object_values (index0 queryResult) of
             Inl err \<Rightarrow> Num 0
           | Inr vs \<Rightarrow> index0 (Arr vs))
        else Num 0)"

text \<open>
  \<^verbatim>\<open>insert(entity)\<close> (hdb.js, lines 237-271) reads \<^verbatim>\<open>entity[field.columnName]\<close> for every
  field definition. The name is data, so the read also finds what a plain object
  inherits from \<^verbatim>\<open>Object.prototype\<close>: its methods, which are truthy and convert to the
  text the runtime gives a native function (here as Node prints it), and under
  \<^verbatim>\<open>__proto__\<close> the prototype itself, a plain object.
\<close>

definition object_prototype_text :: "(string \<times> string) list" where
  "object_prototype_text =
    [(''constructor'', ''function Object() { [native code] }''),
     (''hasOwnProperty'', ''function hasOwnProperty() { [native code] }''),
     (''isPrototypeOf'', ''function isPrototypeOf() { [native code] }''),
     (''propertyIsEnumerable'', ''function propertyIsEnumerable() { [native code] }''),
     (''toLocaleString'', ''function toLocaleString() { [native code] }''),
     (''toString'', ''function toString() { [native code] }''),
     (''valueOf'', ''function valueOf() { [native code] }''),
     (''__defineGetter__'', ''function __defineGetter__() { [native code] }''),
     (''__defineSetter__'', ''function __defineSetter__() { [native code] }''),
     (''__lookupGetter__'', ''function __lookupGetter__() { [native code] }''),
     (''__lookupSetter__'', ''function __lookupSetter__() { [native code] }''),
     (''__proto__'', ''[object Object]'')]"

text \<open>
  What the read of \<^verbatim>\<open>entity[name]\<close> gives: whether the value is truthy, and its text
  or the error of converting it.
\<close>

definition read_entity :: "(string \<times> jsval) list \<Rightarrow> string \<Rightarrow> bool \<times> (js_error + string)" where
  "read_entity entity p =
    (case map_of entity p of
       Some v \<Rightarrow> (truthy v, to_text v)
     | None \<Rightarrow>
         (case map_of object_prototype_text p of
            Some t \<Rightarrow> (True, Inr t)
          | None \<Rightarrow> (False, Inr ''undefined'')))"

text \<open>
  The callback of the \<^verbatim>\<open>forEach\<close> over \<^verbatim>\<open>$fields\<close> (hdb.js, lines 244-254): a field the
  entity holds a truthy value for adds its column name and its value, the value of a
  string column between single quotes.
\<close>

definition insert_field ::
  "(string \<times> jsval) list \<Rightarrow> string \<times> string \<Rightarrow> field \<Rightarrow> js_error + string \<times> string" where
  "insert_field entity acc fld =
    (let queryFields = fst acc; queryValues = snd acc; r = read_entity entity (columnName fld)
     in if fst r then
          (case snd r of
             Inl err \<Rightarrow> Inl err
           | Inr t \<Rightarrow>
               Inr (queryFields @ columnName fld @ '', '',
                    if columnType fld = ''string''
                    then queryValues @ squote @ t @ squote @ '', ''
                    else queryValues @ t @ '', ''))
        else Inr (queryFields, queryValues))"

fun insert_fields ::
  "(string \<times> jsval) list \<Rightarrow> string \<times> string \<Rightarrow> field list \<Rightarrow> js_error + string \<times> string" where
  "insert_fields entity acc [] = Inr acc"
| "insert_fields entity acc (fld # rest) =
     (case insert_field entity acc fld of
        Inl err \<Rightarrow> Inl err
      | Inr acc' \<Rightarrow> insert_fields entity acc' rest)"

text \<open>The statement of \<^verbatim>\<open>insert\<close> (hdb.js, lines 256-260), both lists cut by two code units.\<close>

definition insert_sqlQuery ::
  "adapter_opts \<Rightarrow> field list \<Rightarrow> (string \<times> jsval) list \<Rightarrow> js_error + string" where
  "insert_sqlQuery opts fs entity =
    (case insert_fields entity ([], []) fs of
       Inl err \<Rightarrow> Inl err
     | Inr acc \<Rightarrow>
         (let queryFields = take (length (fst acc) - 2) (fst acc);
              queryValues = take (length (snd acc) - 2) (snd acc)
          in Inr (''insert into '' @ opt_text (schema opts) @ ''.'' @ opt_text (collection opts) @
                  ''('' @ queryFields @ '') VALUES('' @ queryValues @ '')'')))"

text \<open>
  \<^verbatim>\<open>insert(entity)\<close> (hdb.js, lines 261-271): the statement is executed inside a \<^verbatim>\<open>try\<close>
  with an empty \<^verbatim>\<open>catch\<close>, and the entity is returned on both paths. An error while
  the statement is built is outside the \<^verbatim>\<open>try\<close> and leaves \<^verbatim>\<open>insert\<close>.
\<close>

definition insert_hdb ::
  "adapter_opts \<Rightarrow> field list \<Rightarrow> backend \<Rightarrow> (string \<times> jsval) list \<Rightarrow>
     js_error + (string \<times> jsval) list" where
  "insert_hdb opts fs conn entity =
    (case insert_sqlQuery opts fs entity of
       Inl err \<Rightarrow> Inl err
     | Inr sqlQuery \<Rightarrow>
         (let insertResult =
                (case exec_on conn sqlQuery of Inl err \<Rightarrow> Undefined | Inr r \<Rightarrow> r)
          in if truthy insertResult then Inr entity else Inr entity))"

section \<open>Identifier conversion\<close>

text \<open>
  \<^verbatim>\<open>stringToObjectID(id)\<close> (hdb.js, lines 99-103) tests
  \<^verbatim>\<open>typeof id == "string" && ObjectId.isValid(id)\<close>. For a string the right operand is
  evaluated, and the identifier \<^verbatim>\<open>ObjectId\<close> is bound nowhere: hdb.js requires lodash,
  \<^verbatim>\<open>../utils\<close> and \<^verbatim>\<open>./base\<close>, declares \<^verbatim>\<open>hanaClientObj\<close> and \<^verbatim>\<open>connectionObj\<close>, and the
  runtime has no global of that name; reading it throws a ReferenceError. Any other
  value is returned as it is.
\<close>

fun stringToObjectID :: "jsval \<Rightarrow> js_error + jsval" where
  "stringToObjectID (Str s) = Inl ReferenceError"
| "stringToObjectID v = Inr v"

text \<open>
  \<^verbatim>\<open>objectIDToString(id)\<close> (hdb.js, lines 110-113):
  \<^verbatim>\<open>if (id && id.toHexString) return id.toHexString(); return id\<close>. No primitive and no
  array has a \<^verbatim>\<open>toHexString\<close> property; an object holding a truthy one holds a value
  that is not a function (the values here are data), and calling it throws a TypeError.
\<close>

definition objectIDToString :: "jsval \<Rightarrow> js_error + jsval" where
  "objectIDToString v =
    (if truthy v \<and> truthy (get_prop v ''toHexString'') then Inl TypeError else Inr v)"

text \<open>The two round trips, an error of the first conversion ending the trip.\<close>

definition string_roundtrip :: "jsval \<Rightarrow> js_error + jsval" where
  "string_roundtrip s = (case stringToObjectID s of Inl e \<Rightarrow> Inl e | Inr n \<Rightarrow> objectIDToString n)"

definition native_roundtrip :: "jsval \<Rightarrow> js_error + jsval" where
  "native_roundtrip n = (case objectIDToString n of Inl e \<Rightarrow> Inl e | Inr s \<Rightarrow> stringToObjectID s)"

section \<open>transformSort\<close>

text \<open>
  The sort object is built by property assignment, so the order of its keys is the
  order of an ordinary object's own keys: array indices (canonical decimal numerals
  below \<open>2^32 - 1\<close>) first, ascending, then the other keys in the order of their
  first assignment; a key the object has keeps its place.
\<close>

definition digits_value :: "string \<Rightarrow> nat" where
  "digits_value s = foldl (\<lambda>n c. 10 * n + (of_char c - 48)) 0 s"

definition is_array_index :: "string \<Rightarrow> bool" where
  "is_array_index s =
    (s \<noteq> [] \<and> list_all (\<lambda>c. c \<in> set ''0123456789'') s
     \<and> (if hd s = CHR ''0'' then s = ''0'' else True)
     \<and> digits_value s < 2 ^ 32 - 1)"

definition index_before :: "string \<Rightarrow> string \<times> 'v \<Rightarrow> bool" where
  "index_before k p = (is_array_index (fst p) \<and> digits_value (fst p) < digits_value k)"

text \<open>Creating or updating the own property \<open>k\<close> of an object.\<close>

definition obj_put :: "(string \<times> 'v) list \<Rightarrow> string \<Rightarrow> 'v \<Rightarrow> (string \<times> 'v) list" where
  "obj_put ps k v =
    (if k \<in> set (map fst ps) then map (\<lambda>p. if fst p = k then (k, v) else p) ps
     else if is_array_index k then
       takeWhile (index_before k) ps @ [(k, v)] @ dropWhile (index_before k) ps
     else ps @ [(k, v)])"

text \<open>
  The assignment \<^verbatim>\<open>res[k] = n\<close> of a number to a plain object. Under the key
  \<^verbatim>\<open>__proto__\<close>, unless the object has an own property of that name, the assignment
  reaches the setter of \<^verbatim>\<open>Object.prototype\<close>, which ignores a value that is no object:
  the object keeps its properties. Every other key creates or updates the own property.
\<close>

definition assign_number :: "(string \<times> jsval) list \<Rightarrow> string \<Rightarrow> int \<Rightarrow> (string \<times> jsval) list" where
  "assign_number res k n =
    (if k = ''__proto__'' \<and> k \<notin> set (map fst res) then res else obj_put res k (Num n))"

text \<open>
  \<^verbatim>\<open>transformSort(sort)\<close> (hdb.js, lines 542-553): a string is a one-element array; an
  array is reduced from the empty object, \<^verbatim>\<open>res[s.slice(1)] = -1\<close> for an element that
  starts with \<^verbatim>\<open>-\<close> and \<^verbatim>\<open>res[s] = 1\<close> otherwise; anything else is returned as it is.
  No function of the adapter calls \<^verbatim>\<open>transformSort\<close>.
\<close>

definition sort_step :: "(string \<times> jsval) list \<Rightarrow> string \<Rightarrow> (string \<times> jsval) list" where
  "sort_step res s =
    (if take 1 s = ''-'' then assign_number res (drop 1 s) (- 1) else assign_number res s 1)"

definition transformSort :: "sortspec \<Rightarrow> (string \<times> jsval) list" where
  "transformSort sortParam =
    (case sortParam of
       SortStr s \<Rightarrow> foldl sort_step [] [s]
     | SortArr xs \<Rightarrow> foldl sort_step [] xs
     | SortObj ob \<Rightarrow> ob)"

section \<open>The mixin's event subscription\<close>

text \<open>
  \<^verbatim>\<open>DatabaseMixin(mixinOpts)\<close> (the mixin module, lines 96-116 and 247-264). The options are an
  object or \<^verbatim>\<open>undefined\<close> (\<open>None\<close>). \<^verbatim>\<open>_.defaultsDeep\<close> assigns a default to every
  property that is \<^verbatim>\<open>undefined\<close> in the options and descends where both sides hold an
  object, which among these defaults is the \<^verbatim>\<open>cache\<close> entry only. lodash defines the
  property it assigns, so the assignment is \<open>obj_put\<close> for every key.
\<close>

definition assign_default :: "(string \<times> jsval) list \<Rightarrow> string \<times> jsval \<Rightarrow> (string \<times> jsval) list" where
  "assign_default ob d =
    (if get_prop (Obj ob) (fst d) = Undefined then obj_put ob (fst d) (snd d) else ob)"

definition cache_defaults :: "(string \<times> jsval) list" where
  "cache_defaults = [(''enable'', Bool True), (''eventName'', Null)]"

definition mixin_defaults :: "(string \<times> jsval) list" where
  "mixin_defaults =
    [(''createActions'', Bool True), (''actionVisibility'', Str ''published''),
     (''generateActionParams'', Bool True), (''cache'', Obj cache_defaults),
     (''rest'', Bool True), (''autoReconnect'', Bool True), (''maxLimit'', Num (- 1)),
     (''defaultPageSize'', Num 10)]"

text \<open>
  One step of the merge, for one entry of the defaults. An array under \<^verbatim>\<open>cache\<close> is an
  object to lodash and would receive \<^verbatim>\<open>enable\<close> and \<^verbatim>\<open>eventName\<close> as named properties,
  which \<open>Arr\<close> has no place for; it is kept as it is. The mixin reads \<^verbatim>\<open>enabled\<close> from
  it next, which the defaults do not set, and nothing else when that is \<^verbatim>\<open>undefined\<close>.
\<close>

definition defaults_step :: "(string \<times> jsval) list \<Rightarrow> string \<times> jsval \<Rightarrow> (string \<times> jsval) list" where
  "defaults_step ob d =
    (case (get_prop (Obj ob) (fst d), snd d) of
       (Obj inner, Obj dflt) \<Rightarrow> obj_put ob (fst d) (Obj (foldl assign_default inner dflt))
     | _ \<Rightarrow> assign_default ob d)"

definition defaultsDeep :: "(string \<times> jsval) list option \<Rightarrow> (string \<times> jsval) list" where
  "defaultsDeep mixinOpts =
    foldl defaults_step (case mixinOpts of None \<Rightarrow> [] | Some ob \<Rightarrow> ob) mixin_defaults"

text \<open>
  Of the schema the mixin returns, its \<^verbatim>\<open>name\<close> and the key of its \<^verbatim>\<open>events\<close> block
  (\<open>None\<close>: the schema has no such block). The block is added when
  \<^verbatim>\<open>mixinOpts.cache && mixinOpts.cache.enabled\<close> holds, under the key
  \<^verbatim>\<open>mixinOpts.cache.eventName || `cache.clean.${this.name}`\<close>, converted to a string;
  \<open>this_name\<close> is \<^verbatim>\<open>this.name\<close>, or \<open>None\<close> when the function is called without a
  receiver, where reading \<^verbatim>\<open>this.name\<close> throws a TypeError. The modules the mixin calls
  with the options before (actions, methods, transform, validation) are not in the
  sources; they are taken to return and to leave \<^verbatim>\<open>mixinOpts.cache\<close> as it is.
\<close>

record service_schema =
  name :: string
  events :: "string option"

definition DatabaseMixin ::
  "jsval option \<Rightarrow> (string \<times> jsval) list option \<Rightarrow> js_error + service_schema" where
  "DatabaseMixin this_name mixinOpts =
    (let opts = Obj (defaultsDeep mixinOpts);
         cache = get_prop opts ''cache''
     in if truthy cache \<and> truthy (get_prop cache ''enabled'') then
          (if truthy (get_prop cache ''eventName'') then
             (case to_text (get_prop cache ''eventName'') of
                Inl err \<Rightarrow> Inl err
              | Inr eventName \<Rightarrow> Inr \<lparr>name = [], events = Some eventName\<rparr>)
           else
             (case this_name of
                None \<Rightarrow> Inl TypeError
              | Some n \<Rightarrow>
                  (case to_text n of
                     Inl err \<Rightarrow> Inl err
                   | Inr t \<Rightarrow> Inr \<lparr>name = [], events = Some (''cache.clean.'' @ t)\<rparr>)))
        else Inr \<lparr>name = [], events = None\<rparr>)"

text \<open>
  What the caller passed under \<^verbatim>\<open>cache\<close>, before the defaults are merged in:
  \<^verbatim>\<open>mixinOpts.cache\<close>, or \<^verbatim>\<open>undefined\<close> without options.
\<close>

definition passed_cache :: "(string \<times> jsval) list option \<Rightarrow> jsval" where
  "passed_cache mixinOpts =
    (case mixinOpts of None \<Rightarrow> Undefined | Some ob \<Rightarrow> get_prop (Obj ob) ''cache'')"

section \<open>connect\<close>





section \<open>Notions the statements use\<close>

text \<open>
  The field list of the specification's example entity
  \<^verbatim>\<open>{ id: primary/string, name: string required, age: number, deletedAt: hidden-always }\<close>,
  with the column of each field named as the field.
\<close>

definition example_fields :: "field list" where
  "example_fields =
    [\<lparr>columnName = ''id'', columnType = ''string''\<rparr>,
     \<lparr>columnName = ''name'', columnType = ''string''\<rparr>,
     \<lparr>columnName = ''age'', columnType = ''number''\<rparr>,
     \<lparr>columnName = ''deletedAt'', columnType = ''number''\<rparr>]"


text \<open>
  A truthy literal operand: a string that is not empty, a number that is not zero (a
  safe integer, as numbers are here), or \<^verbatim>\<open>true\<close>.
\<close>

fun literal_operand :: "jsval \<Rightarrow> bool" where
  "literal_operand (Str s) = (s \<noteq> [])"
| "literal_operand (Num n) = (n \<noteq> 0 \<and> - (2 ^ 53) < n \<and> n < 2 ^ 53)"
| "literal_operand (Bool b) = b"
| "literal_operand v = False"

text \<open>
  The sort clauses as the specification words them: a leading \<^verbatim>\<open>-\<close> denotes descending
  (\<open>-1\<close>) on the field named by the rest, any other name ascending (\<open>1\<close>) on itself, in
  the order of the list.
\<close>

definition spec_sort_field :: "string \<Rightarrow> string" where
  "spec_sort_field s = (if take 1 s = ''-'' then drop 1 s else s)"

definition spec_sort_clause :: "string \<Rightarrow> string \<times> jsval" where
  "spec_sort_clause s = (spec_sort_field s, if take 1 s = ''-'' then Num (- 1) else Num 1)"

definition spec_sort_clauses :: "string list \<Rightarrow> (string \<times> jsval) list" where
  "spec_sort_clauses xs = map spec_sort_clause xs"

section \<open>Lemmas on createQuery\<close>

lemma resolve_key_id: "k = ''id'' \<or> k = ''_id'' \<Longrightarrow> resolve_key fs k = (''_ID'', True)"
  by (auto simp add: resolve_key_def)

lemma resolve_key_declared:
  "k \<noteq> ''id'' \<Longrightarrow> k \<noteq> ''_id'' \<Longrightarrow> List.find (\<lambda>elem. columnName elem = k) fs = Some d \<Longrightarrow>
   resolve_key fs k = (k, columnType d = ''string'')"
  by (simp add: resolve_key_def)

lemma literal_operand_text:
  "literal_operand x \<Longrightarrow> truthy x \<and> to_text x = Inr (js_to_string x)"
  by (cases x) (simp_all add: to_text_def)

text \<open>A query of one entry whose key is not \<^verbatim>\<open>__proto__\<close>: one call of the callback.\<close>

lemma createQuery_proto_lost:
  "createQuery fs (Some \<lparr>query = Some [(''__proto__'', v)], sort = s\<rparr>) = Inr []"
  by (simp add: createQuery_def object_assign_def)

lemma createQuery_one_entry:
  assumes "k \<noteq> ''__proto__''"
  shows "createQuery fs (Some \<lparr>query = Some [(k, v)], sort = s\<rparr>) =
    (case resolve_key fs k of
       (key, keyIsString) \<Rightarrow>
         (case render_condition ''WHERE '' key keyIsString v of
            Inl err \<Rightarrow> Inl err
          | Inr q \<Rightarrow> Inr (if q \<noteq> ''WHERE '' then take (length q - 5) q else [])))"
  using assms
  by (simp add: createQuery_def object_assign_def createQuery_entry_def
      split: prod.split sum.split)

lemma trim_joiner:
  "(if pre @ '' AND '' \<noteq> ''WHERE '' then take (length (pre @ '' AND '') - 5) (pre @ '' AND '')
    else []) = pre"
proof -
  have "pre @ '' AND '' \<noteq> ''WHERE ''"
  proof
    assume e: "pre @ '' AND '' = ''WHERE ''"
    then have "length (pre @ '' AND '') = length ''WHERE ''"
      by (rule arg_cong)
    then have "length pre = 1"
      by simp
    then obtain c where "pre = [c]"
      by (cases pre) auto
    with e show False
      by simp
  qed
  then show ?thesis
    by simp
qed

text \<open>Where the callback ends its text with the joiner, the clause is the text before it.\<close>

lemma createQuery_one_clause:
  assumes "k \<noteq> ''__proto__''"
    and "resolve_key fs k = (key, keyIsString)"
    and "render_condition ''WHERE '' key keyIsString v = Inr (pre @ '' AND '')"
  shows "createQuery fs (Some \<lparr>query = Some [(k, v)], sort = s\<rparr>) = Inr pre"
  unfolding createQuery_one_entry [OF assms(1)] assms(2) prod.case assms(3) sum.case trim_joiner
  by (rule refl)

lemma render_gte:
  assumes "truthy x"
  shows "render_condition q key keyIsString (Obj [(''$gte'', x)]) =
    (if keyIsString then concat_value (q @ key @ '' >= '' @ squote) x (squote @ '' AND '')
     else concat_value (q @ key @ '' >= '') x '' AND '')"
  using assms by (simp add: render_condition_def)

text \<open>
  On the keys \<^verbatim>\<open>id\<close> and \<^verbatim>\<open>_id\<close> a literal condition, and a comparison whose operand
  is truthy and converts to a string, names the column \<^verbatim>\<open>_ID\<close> and quotes the literal,
  whatever the field list declares.
\<close>

lemma createQuery_id_comparison:
  assumes "k = ''id'' \<or> k = ''_id''"
  shows "\<not> is_nonnull_object v \<Longrightarrow>
           createQuery fs (Some \<lparr>query = Some [(k, v)], sort = s\<rparr>) =
           Inr (''WHERE _ID = '' @ squote @ js_to_string v @ squote)"
    and "truthy x \<Longrightarrow> \<not> to_string_throws x \<Longrightarrow>
           createQuery fs (Some \<lparr>query = Some [(k, Obj [(''$gt'', x)])], sort = s\<rparr>) =
           Inr (''WHERE _ID > '' @ squote @ js_to_string x @ squote)"
    and "truthy x \<Longrightarrow> \<not> to_string_throws x \<Longrightarrow>
           createQuery fs (Some \<lparr>query = Some [(k, Obj [(''$gte'', x)])], sort = s\<rparr>) =
           Inr (''WHERE _ID >= '' @ squote @ js_to_string x @ squote)"
    and "truthy x \<Longrightarrow> \<not> to_string_throws x \<Longrightarrow>
           createQuery fs (Some \<lparr>query = Some [(k, Obj [(''$lt'', x)])], sort = s\<rparr>) =
           Inr (''WHERE _ID < '' @ squote @ js_to_string x @ squote)"
    and "truthy x \<Longrightarrow> \<not> to_string_throws x \<Longrightarrow>
           createQuery fs (Some \<lparr>query = Some [(k, Obj [(''$lte'', x)])], sort = s\<rparr>) =
           Inr (''WHERE _ID <= '' @ squote @ js_to_string x @ squote)"
    and "truthy x \<Longrightarrow> \<not> to_string_throws x \<Longrightarrow>
           createQuery fs (Some \<lparr>query = Some [(k, Obj [(''$eq'', x)])], sort = s\<rparr>) =
           Inr (''WHERE _ID = '' @ squote @ js_to_string x @ squote)"
    and "truthy x \<Longrightarrow> \<not> to_string_throws x \<Longrightarrow>
           createQuery fs (Some \<lparr>query = Some [(k, Obj [(''$ne'', x)])], sort = s\<rparr>) =
           Inr (''WHERE _ID != '' @ squote @ js_to_string x @ squote)"
proof -
  from assms have p: "k \<noteq> ''__proto__''"
    by auto
  have r: "resolve_key fs k = (''_ID'', True)"
    using assms by (rule resolve_key_id)
  have prim: "\<not> to_string_throws v" if "\<not> is_nonnull_object v" for v
    using that by (cases v) simp_all
  show "\<not> is_nonnull_object v \<Longrightarrow>
           createQuery fs (Some \<lparr>query = Some [(k, v)], sort = s\<rparr>) =
           Inr (''WHERE _ID = '' @ squote @ js_to_string v @ squote)"
    by (simp add: createQuery_one_entry [OF p] r render_condition_def concat_value_def
        to_text_def prim)
  show "truthy x \<Longrightarrow> \<not> to_string_throws x \<Longrightarrow>
           createQuery fs (Some \<lparr>query = Some [(k, Obj [(''$gt'', x)])], sort = s\<rparr>) =
           Inr (''WHERE _ID > '' @ squote @ js_to_string x @ squote)"
    by (simp add: createQuery_one_entry [OF p] r render_condition_def concat_value_def to_text_def)
  show "truthy x \<Longrightarrow> \<not> to_string_throws x \<Longrightarrow>
           createQuery fs (Some \<lparr>query = Some [(k, Obj [(''$gte'', x)])], sort = s\<rparr>) =
           Inr (''WHERE _ID >= '' @ squote @ js_to_string x @ squote)"
    by (simp add: createQuery_one_entry [OF p] r render_condition_def concat_value_def to_text_def)
  show "truthy x \<Longrightarrow> \<not> to_string_throws x \<Longrightarrow>
           createQuery fs (Some \<lparr>query = Some [(k, Obj [(''$lt'', x)])], sort = s\<rparr>) =
           Inr (''WHERE _ID < '' @ squote @ js_to_string x @ squote)"
    by (simp add: createQuery_one_entry [OF p] r render_condition_def concat_value_def to_text_def)
  show "truthy x \<Longrightarrow> \<not> to_string_throws x \<Longrightarrow>
           createQuery fs (Some \<lparr>query = Some [(k, Obj [(''$lte'', x)])], sort = s\<rparr>) =
           Inr (''WHERE _ID <= '' @ squote @ js_to_string x @ squote)"
    by (simp add: createQuery_one_entry [OF p] r render_condition_def concat_value_def to_text_def)
  show "truthy x \<Longrightarrow> \<not> to_string_throws x \<Longrightarrow>
           createQuery fs (Some \<lparr>query = Some [(k, Obj [(''$eq'', x)])], sort = s\<rparr>) =
           Inr (''WHERE _ID = '' @ squote @ js_to_string x @ squote)"
    by (simp add: createQuery_one_entry [OF p] r render_condition_def concat_value_def to_text_def)
  show "truthy x \<Longrightarrow> \<not> to_string_throws x \<Longrightarrow>
           createQuery fs (Some \<lparr>query = Some [(k, Obj [(''$ne'', x)])], sort = s\<rparr>) =
           Inr (''WHERE _ID != '' @ squote @ js_to_string x @ squote)"
    by (simp add: createQuery_one_entry [OF p] r render_condition_def concat_value_def to_text_def)
qed

section \<open>Lemmas on objects, sorting and defaults\<close>

lemma obj_put_fresh:
  "k \<notin> fst ` set ps \<Longrightarrow> \<not> is_array_index k \<Longrightarrow> obj_put ps k v = ps @ [(k, v)]"
  by (simp add: obj_put_def)

lemma sort_step_fresh:
  assumes "spec_sort_field s \<notin> fst ` set res" and "\<not> is_array_index (spec_sort_field s)"
    and "spec_sort_field s \<noteq> ''__proto__''"
  shows "sort_step res s = res @ [spec_sort_clause s]"
proof (cases "take 1 s = ''-''")
  case True
  with assms show ?thesis
    by (simp add: sort_step_def assign_number_def spec_sort_field_def spec_sort_clause_def
        obj_put_fresh)
next
  case False
  with assms show ?thesis
    by (simp add: sort_step_def assign_number_def spec_sort_field_def spec_sort_clause_def
        obj_put_fresh)
qed

lemma sort_fold_fresh:
  assumes "distinct (map fst res @ map spec_sort_field xs)"
    and "list_all (\<lambda>s. \<not> is_array_index (spec_sort_field s) \<and> spec_sort_field s \<noteq> ''__proto__'') xs"
  shows "foldl sort_step res xs = res @ map spec_sort_clause xs"
  using assms
proof (induction xs arbitrary: res)
  case Nil
  show ?case by simp
next
  case (Cons x xs)
  from Cons.prems have step: "sort_step res x = res @ [spec_sort_clause x]"
    by (intro sort_step_fresh) auto
  from Cons.prems have "distinct (map fst (res @ [spec_sort_clause x]) @ map spec_sort_field xs)"
    by (auto simp add: spec_sort_clause_def)
  moreover from Cons.prems
  have "list_all (\<lambda>s. \<not> is_array_index (spec_sort_field s) \<and> spec_sort_field s \<noteq> ''__proto__'') xs"
    by simp
  ultimately have "foldl sort_step (res @ [spec_sort_clause x]) xs =
      (res @ [spec_sort_clause x]) @ map spec_sort_clause xs"
    by (rule Cons.IH)
  with step show ?case by simp
qed

text \<open>
  What \<^verbatim>\<open>transformSort\<close> would give: for field names that are pairwise distinct, no
  array index and not \<^verbatim>\<open>__proto__\<close>, the clauses the specification words, in the order
  of the list; a field named twice keeps one clause, an index moves to the front and
  \<^verbatim>\<open>__proto__\<close> leaves none.
\<close>

lemma transformSort_ordered:
  assumes "distinct (map spec_sort_field xs)"
    and "list_all (\<lambda>s. \<not> is_array_index (spec_sort_field s) \<and> spec_sort_field s \<noteq> ''__proto__'') xs"
  shows "transformSort (SortArr xs) = spec_sort_clauses xs"
  using sort_fold_fresh [of "[]" xs] assms
  by (simp add: transformSort_def spec_sort_clauses_def)

lemma transformSort_examples:
  "transformSort (SortArr [''-age'', ''name'']) = [(''age'', Num (- 1)), (''name'', Num 1)]"
  "transformSort (SortArr [''-age'', ''age'']) = [(''age'', Num 1)]"
  "transformSort (SortArr [''name'', ''7'']) = [(''7'', Num 1), (''name'', Num 1)]"
  "transformSort (SortArr [''__proto__'']) = []"
  by (simp_all add: transformSort_def sort_step_def assign_number_def obj_put_def
      is_array_index_def index_before_def digits_value_def)

lemma map_of_insert:
  "k \<notin> fst ` set xs \<Longrightarrow>
   map_of (xs @ (k, v) # ys) k' = (if k' = k then Some v else map_of (xs @ ys) k')"
  by (induction xs) auto

lemma map_of_replace_same:
  "k \<in> fst ` set ps \<Longrightarrow> map_of (map (\<lambda>p. if fst p = k then (k, v) else p) ps) k = Some v"
  by (induction ps) auto

lemma map_of_replace_other:
  "k' \<noteq> k \<Longrightarrow> map_of (map (\<lambda>p. if fst p = k then (k, v) else p) ps) k' = map_of ps k'"
  by (induction ps) auto

lemma get_prop_obj_put:
  "get_prop (Obj (obj_put ob k v)) k' = (if k' = k then v else get_prop (Obj ob) k')"
proof (cases "k \<in> fst ` set ob")
  case True
  then show ?thesis
    by (simp add: obj_put_def map_of_replace_same map_of_replace_other)
next
  case False
  have "fst ` set (takeWhile (index_before k) ob) \<subseteq> fst ` set ob"
    by (auto dest: set_takeWhileD)
  with False have "k \<notin> fst ` set (takeWhile (index_before k) ob)"
    by blast
  then have "map_of (takeWhile (index_before k) ob @ (k, v) # dropWhile (index_before k) ob) k' =
      (if k' = k then Some v else map_of (takeWhile (index_before k) ob @ dropWhile (index_before k) ob) k')"
    by (rule map_of_insert)
  then have idx: "map_of (takeWhile (index_before k) ob @ (k, v) # dropWhile (index_before k) ob) k' =
      (if k' = k then Some v else map_of ob k')"
    by (simp only: takeWhile_dropWhile_id)
  have "map_of (ob @ (k, v) # []) k' = (if k' = k then Some v else map_of (ob @ []) k')"
    using False by (rule map_of_insert)
  then have app: "map_of (ob @ [(k, v)]) k' = (if k' = k then Some v else map_of ob k')"
    by (simp only: append_Nil2)
  show ?thesis
  proof (cases "is_array_index k")
    case True
    with False idx show ?thesis
      by (simp add: obj_put_def del: map_of_append)
  next
    case nonindex: False
    with False app show ?thesis
      by (simp add: obj_put_def del: map_of_append)
  qed
qed


lemma assign_default_other:
  "k' \<noteq> fst d \<Longrightarrow> get_prop (Obj (assign_default ob d)) k' = get_prop (Obj ob) k'"
  by (simp add: assign_default_def get_prop_obj_put del: get_prop.simps(1))

lemma assign_default_same:
  "get_prop (Obj (assign_default ob d)) (fst d) =
     (if get_prop (Obj ob) (fst d) = Undefined then snd d else get_prop (Obj ob) (fst d))"
  by (simp add: assign_default_def get_prop_obj_put del: get_prop.simps(1))

lemma cache_defaults_enabled:
  "get_prop (Obj (foldl assign_default inner cache_defaults)) ''enabled'' = get_prop (Obj inner) ''enabled''"
  by (simp add: cache_defaults_def assign_default_other del: get_prop.simps(1))

lemma defaults_step_other:
  assumes "k' \<noteq> fst d"
  shows "get_prop (Obj (defaults_step ob d)) k' = get_prop (Obj ob) k'"
  using assms
  by (simp add: defaults_step_def assign_default_other get_prop_obj_put
      split: prod.split jsval.split del: get_prop.simps(1))

lemma defaults_step_cache:
  "get_prop (Obj (defaults_step ob (''cache'', Obj cache_defaults))) ''cache'' =
     (case get_prop (Obj ob) ''cache'' of
        Undefined \<Rightarrow> Obj cache_defaults
      | Obj inner \<Rightarrow> Obj (foldl assign_default inner cache_defaults)
      | v \<Rightarrow> v)"
  using assign_default_same [of ob "(''cache'', Obj cache_defaults)"]
  by (cases "get_prop (Obj ob) ''cache''")
    (simp_all add: defaults_step_def get_prop_obj_put del: get_prop.simps(1))

lemma defaultsDeep_cache:
  "get_prop (Obj (defaultsDeep mixinOpts)) ''cache'' =
     (case passed_cache mixinOpts of
        Undefined \<Rightarrow> Obj cache_defaults
      | Obj inner \<Rightarrow> Obj (foldl assign_default inner cache_defaults)
      | v \<Rightarrow> v)"
proof -
  define ob where "ob = (case mixinOpts of None \<Rightarrow> [] | Some ob \<Rightarrow> ob)"
  define ob' where "ob' = foldl defaults_step ob
        [(''createActions'', Bool True), (''actionVisibility'', Str ''published''),
         (''generateActionParams'', Bool True)]"
  have p: "passed_cache mixinOpts = get_prop (Obj ob) ''cache''"
    by (simp add: passed_cache_def ob_def split: option.split)
  have "get_prop (Obj (foldl defaults_step ob mixin_defaults)) ''cache'' =
      get_prop (Obj (defaults_step ob' (''cache'', Obj cache_defaults))) ''cache''"
    by (simp add: mixin_defaults_def defaults_step_other ob'_def del: get_prop.simps(1))
  also have "\<dots> = (case get_prop (Obj ob') ''cache'' of
        Undefined \<Rightarrow> Obj cache_defaults
      | Obj inner \<Rightarrow> Obj (foldl assign_default inner cache_defaults)
      | v \<Rightarrow> v)"
    by (rule defaults_step_cache)
  also have "get_prop (Obj ob') ''cache'' = get_prop (Obj ob) ''cache''"
    by (simp add: defaults_step_other ob'_def del: get_prop.simps(1))
  finally show ?thesis
    by (simp add: defaultsDeep_def ob_def [symmetric] p del: get_prop.simps(1))
qed

section \<open>Lemmas on insert and connect\<close>

lemma to_text_error: "to_text v = Inl e \<Longrightarrow> e = TypeError"
  by (simp add: to_text_def split: if_splits)

lemma insert_field_error: "insert_field entity acc fld = Inl e \<Longrightarrow> e = TypeError"
  by (auto simp add: insert_field_def read_entity_def Let_def to_text_error
      split: if_splits sum.splits option.splits)

lemma insert_fields_error: "insert_fields entity acc fs = Inl e \<Longrightarrow> e = TypeError"
  by (induction fs arbitrary: acc) (auto simp add: insert_field_error split: sum.splits)

lemma insert_sqlQuery_error: "insert_sqlQuery opts fs entity = Inl e \<Longrightarrow> e = TypeError"
  by (auto simp add: insert_sqlQuery_def Let_def insert_fields_error split: sum.splits)






section \<open>Operators without a rendering\<close>

text \<open>
  C1. The claim asks that an operator either has a rendering or makes compilation
  fail. In \<^verbatim>\<open>createQuery\<close> the operators \<^verbatim>\<open>$in\<close>, \<^verbatim>\<open>$nin\<close>, \<^verbatim>\<open>$exists\<close> and \<^verbatim>\<open>$raw\<close>
  append the token \<^verbatim>\<open>IMPLEMENTAR\<close> and compilation succeeds: for a query with one such
  condition, whatever the field list and whatever the field, the result is that token
  after \<^verbatim>\<open>WHERE\<close>, cut by the five code units the final trim removes. (Under the key
  \<^verbatim>\<open>__proto__\<close> the condition is lost with the copy of the query, and the result is the
  empty clause.)
\<close>

theorem createQuery_placeholder:
  "createQuery fs (Some \<lparr>query = Some [(k, Obj [(''$in'', Arr xs)])], sort = s\<rparr>)
     = Inr (if k = ''__proto__'' then [] else ''WHERE IMPLEM'')
   \<and> createQuery fs (Some \<lparr>query = Some [(k, Obj [(''$nin'', Arr xs)])], sort = s\<rparr>)
     = Inr (if k = ''__proto__'' then [] else ''WHERE IMPLEM'')
   \<and> createQuery fs (Some \<lparr>query = Some [(k, Obj [(''$exists'', Bool b)])], sort = s\<rparr>)
     = Inr (if k = ''__proto__'' then [] else ''WHERE IMPLEM'')
   \<and> createQuery fs (Some \<lparr>query = Some [(k, Obj [(''$raw'', Str (c # cs))])], sort = s\<rparr>)
     = Inr (if k = ''__proto__'' then [] else ''WHERE IMPLEM'')
   \<and> createQuery fs (Some \<lparr>query = Some [(k, Obj [(''$raw'', Obj ps)])], sort = s\<rparr>)
     = Inr (if k = ''__proto__'' then [] else ''WHERE IMPLEM'')"
proof (cases "k = ''__proto__''")
  case True
  then show ?thesis
    by (simp add: createQuery_proto_lost)
next
  case False
  then show ?thesis
    by (cases b) (simp_all add: createQuery_one_entry render_condition_def split: prod.split)
qed

text \<open>C1 at the field \<^verbatim>\<open>age\<close> of the example fields, one condition for each operator.\<close>

theorem createQuery_placeholder_witness:
  "createQuery example_fields
     (Some \<lparr>query = Some [(''age'', Obj [(''$in'', Arr [Num 18, Num 21])])], sort = None\<rparr>) = Inr ''WHERE IMPLEM''
   \<and> createQuery example_fields
     (Some \<lparr>query = Some [(''age'', Obj [(''$nin'', Arr [Num 18, Num 21])])], sort = None\<rparr>) = Inr ''WHERE IMPLEM''
   \<and> createQuery example_fields
     (Some \<lparr>query = Some [(''age'', Obj [(''$exists'', Bool True)])], sort = None\<rparr>) = Inr ''WHERE IMPLEM''
   \<and> createQuery example_fields
     (Some \<lparr>query = Some [(''age'', Obj [(''$raw'', Str ''age > 1'')])], sort = None\<rparr>) = Inr ''WHERE IMPLEM''
   \<and> createQuery example_fields
     (Some \<lparr>query = Some [(''age'', Obj [(''$raw'', Obj [(''condition'', Str ''age > ?'')])])], sort = None\<rparr>)
     = Inr ''WHERE IMPLEM''"
  using createQuery_placeholder [of example_fields "''age''" "[Num 18, Num 21]" None True
      "CHR ''a''" "''ge > 1''" "[(''condition'', Str ''age > ?'')]"]
  by simp

section \<open>The example request\<close>




section \<open>Quoting of literals\<close>

text \<open>
  C3, as the claim states it, fails at three kinds of condition. A number field that is
  the identifier is quoted: with \<^verbatim>\<open>id\<close> declared of type number, \<^verbatim>\<open>{id: {$gte: 18}}\<close>
  compiles with the literal between quotes. A falsy operand is not rendered at all:
  \<^verbatim>\<open>{age: {$gte: 0}}\<close> compiles to the empty clause. And a field named \<^verbatim>\<open>__proto__\<close>, here
  declared a string, is lost with the copy of the query: its condition compiles to the
  empty clause.
\<close>

theorem createQuery_gte_counterexample:
  "createQuery [\<lparr>columnName = ''id'', columnType = ''number''\<rparr>]
     (Some \<lparr>query = Some [(''id'', Obj [(''$gte'', Num 18)])], sort = None\<rparr>)
   = Inr (''WHERE _ID >= '18'' @ squote)
   \<and> createQuery example_fields
     (Some \<lparr>query = Some [(''age'', Obj [(''$gte'', Num 0)])], sort = None\<rparr>) = Inr []
   \<and> createQuery [\<lparr>columnName = ''__proto__'', columnType = ''string''\<rparr>]
     (Some \<lparr>query = Some [(''__proto__'', Obj [(''$gte'', Str ''M'')])], sort = None\<rparr>) = Inr []"
  by (simp add: createQuery_def object_assign_def createQuery_entry_def resolve_key_def
      render_condition_def concat_value_def to_text_def show_int_def example_fields_def)

text \<open>
  C3, amended. For a key \<open>k\<close> other than \<^verbatim>\<open>__proto__\<close> that the field list declares, and
  a truthy literal operand \<open>x\<close> (a string, a number or \<^verbatim>\<open>true\<close>): when the declared type
  is string, \<^verbatim>\<open>{k: {$gte: x}}\<close> compiles to the column (\<^verbatim>\<open>_ID\<close> for the keys \<^verbatim>\<open>id\<close> and
  \<^verbatim>\<open>_id\<close>) compared with the text of \<open>x\<close> between single quotes; when the declared type is
  number and the key is neither \<^verbatim>\<open>id\<close> nor \<^verbatim>\<open>_id\<close>, it compiles to the column compared
  with the text of \<open>x\<close> without quotes. The quotes follow the declared type, not the
  kind of the operand.
\<close>

theorem createQuery_gte_quoting:
  assumes "List.find (\<lambda>elem. columnName elem = k) fs = Some d"
    and "k \<noteq> ''__proto__''"
    and "literal_operand x"
  shows "(columnType d = ''string'' \<longrightarrow>
            createQuery fs (Some \<lparr>query = Some [(k, Obj [(''$gte'', x)])], sort = s\<rparr>) =
            Inr (''WHERE '' @ (if k = ''id'' \<or> k = ''_id'' then ''_ID'' else k) @ '' >= '' @
                 squote @ js_to_string x @ squote))
       \<and> (columnType d = ''number'' \<and> k \<noteq> ''id'' \<and> k \<noteq> ''_id'' \<longrightarrow>
            createQuery fs (Some \<lparr>query = Some [(k, Obj [(''$gte'', x)])], sort = s\<rparr>) =
            Inr (''WHERE '' @ k @ '' >= '' @ js_to_string x))"
proof -
  from assms(3) have x: "truthy x" "to_text x = Inr (js_to_string x)"
    by (simp_all add: literal_operand_text)
  show ?thesis
  proof (cases "k = ''id'' \<or> k = ''_id''")
    case True
    then have r: "resolve_key fs k = (''_ID'', True)"
      by (rule resolve_key_id)
    have "render_condition ''WHERE '' ''_ID'' True (Obj [(''$gte'', x)]) =
        Inr ((''WHERE '' @ ''_ID'' @ '' >= '' @ squote @ js_to_string x @ squote) @ '' AND '')"
      using x by (simp add: render_gte concat_value_def)
    from createQuery_one_clause [OF assms(2) r this] True show ?thesis
      by auto
  next
    case False
    show ?thesis
    proof (cases "columnType d = ''string''")
      case True
      with False have r: "resolve_key fs k = (k, True)"
        using assms(1) by (simp add: resolve_key_declared)
      have "render_condition ''WHERE '' k True (Obj [(''$gte'', x)]) =
          Inr ((''WHERE '' @ k @ '' >= '' @ squote @ js_to_string x @ squote) @ '' AND '')"
        using x by (simp add: render_gte concat_value_def)
      from createQuery_one_clause [OF assms(2) r this] True False show ?thesis
        by simp
    next
      case nonstring: False
      with False have r: "resolve_key fs k = (k, False)"
        using assms(1) by (simp add: resolve_key_declared)
      have "render_condition ''WHERE '' k False (Obj [(''$gte'', x)]) =
          Inr ((''WHERE '' @ k @ '' >= '' @ js_to_string x) @ '' AND '')"
        using x by (simp add: render_gte concat_value_def)
      from createQuery_one_clause [OF assms(2) r this] nonstring show ?thesis
        by simp
    qed
  qed
qed

text \<open>
  The amended C3 at the example fields, where \<^verbatim>\<open>name\<close> is a string and \<^verbatim>\<open>age\<close> a number:
  the claim's two conditions, and the two with the operands exchanged.
\<close>

theorem createQuery_gte_quoting_witness:
  "createQuery example_fields
     (Some \<lparr>query = Some [(''name'', Obj [(''$gte'', Str ''M'')])], sort = None\<rparr>)
     = Inr (''WHERE name >= 'M'' @ squote)
   \<and> createQuery example_fields
     (Some \<lparr>query = Some [(''age'', Obj [(''$gte'', Num 18)])], sort = None\<rparr>)
     = Inr ''WHERE age >= 18''
   \<and> createQuery example_fields
     (Some \<lparr>query = Some [(''name'', Obj [(''$gte'', Num 18)])], sort = None\<rparr>)
     = Inr (''WHERE name >= '18'' @ squote)
   \<and> createQuery example_fields
     (Some \<lparr>query = Some [(''age'', Obj [(''$gte'', Str ''M'')])], sort = None\<rparr>)
     = Inr ''WHERE age >= M''"
proof -
  have n: "List.find (\<lambda>elem. columnName elem = ''name'') example_fields
      = Some \<lparr>columnName = ''name'', columnType = ''string''\<rparr>"
    by (simp add: example_fields_def)
  have a: "List.find (\<lambda>elem. columnName elem = ''age'') example_fields
      = Some \<lparr>columnName = ''age'', columnType = ''number''\<rparr>"
    by (simp add: example_fields_def)
  have m: "literal_operand (Str ''M'')" and e: "literal_operand (Num 18)"
    by simp_all
  have pn: "''name'' \<noteq> ''__proto__''" and pa: "''age'' \<noteq> ''__proto__''"
    by simp_all
  show ?thesis
    using createQuery_gte_quoting [OF n pn m, of None] createQuery_gte_quoting [OF a pa e, of None]
      createQuery_gte_quoting [OF n pn e, of None] createQuery_gte_quoting [OF a pa m, of None]
    by (simp add: show_int_def)
qed

section \<open>Identifier conditions\<close>

text \<open>
  C4. The claim asks, for every condition on \<^verbatim>\<open>id\<close> or \<^verbatim>\<open>_id\<close>, for the column \<^verbatim>\<open>_ID\<close> and
  a quoted literal. A lookup by a list of identifiers, \<^verbatim>\<open>{_id: {$in: ["a1", "b2"]}}\<close>,
  compiles to the cut placeholder instead: neither the column nor a literal is
  rendered. (Lemma \<open>createQuery_id_comparison\<close> gives conditions on which the code
  does what the claim says.)
\<close>

theorem createQuery_id_in_placeholder:
  "createQuery example_fields
     (Some \<lparr>query = Some [(''_id'', Obj [(''$in'', Arr [Str ''a1'', Str ''b2''])])], sort = None\<rparr>)
     = Inr ''WHERE IMPLEM''
   \<and> createQuery example_fields
     (Some \<lparr>query = Some [(''id'', Obj [(''$in'', Arr [Str ''a1'', Str ''b2''])])], sort = None\<rparr>)
     = Inr ''WHERE IMPLEM''"
  by (simp add: createQuery_one_entry resolve_key_id render_condition_def)

section \<open>Conjunction of conditions\<close>

text \<open>
  C5. The claim asks, for every query over two or more fields, for the fragments joined
  by \<^verbatim>\<open>AND\<close> and the joiner after the last one trimmed. A placeholder carries no
  joiner: as the last fragment it loses its own last five code units to the trim, and
  as the first it runs into the fragment after it.
\<close>

theorem createQuery_placeholder_joiner:
  "createQuery example_fields
     (Some \<lparr>query = Some [(''name'', Str ''Ann''), (''age'', Obj [(''$in'', Arr [Num 18, Num 21])])],
            sort = None\<rparr>)
     = Inr ''WHERE name = 'Ann' AND IMPLEM''
   \<and> createQuery example_fields
     (Some \<lparr>query = Some [(''age'', Obj [(''$in'', Arr [Num 18, Num 21])]), (''name'', Str ''Ann'')],
            sort = None\<rparr>)
     = Inr (''WHERE IMPLEMENTARname = 'Ann'' @ squote)"
  by (simp add: createQuery_def object_assign_def createQuery_entry_def resolve_key_def
      render_condition_def concat_value_def to_text_def example_fields_def)

section \<open>Sort specifications\<close>

text \<open>
  C6. The claim asks that a sort specification compiles to ordered clauses, descending
  for a name with a leading \<^verbatim>\<open>-\<close>. The adapter compiles none: for
  \<^verbatim>\<open>find({query: {age: {$gte: 18}}, sort: ["-age", "name"]})\<close> the statement holds the
  WHERE clause and no sort clause, and for every request the statement \<^verbatim>\<open>find\<close> builds
  and the clause \<^verbatim>\<open>createQuery\<close> builds are those of the request without its sort
  parameter. (The sort block of \<^verbatim>\<open>createQuery\<close> is commented out, and
  \<^verbatim>\<open>transformSort\<close> is called nowhere; lemmas \<open>transformSort_ordered\<close> and
  \<open>transformSort_examples\<close> say what it would give.)
\<close>

theorem find_ignores_sort:
  "find_sqlQuery \<lparr>schema = Some ''ADDTAX'', collection = Some ''TAXD0000''\<rparr> example_fields
     (Some \<lparr>query = Some [(''age'', Obj [(''$gte'', Num 18)])],
            sort = Some (SortArr [''-age'', ''name''])\<rparr>)
   = Inr ''select * from ADDTAX.TAXD0000 WHERE age >= 18''
   \<and> find_sqlQuery opts fs (Some \<lparr>query = q, sort = s\<rparr>)
     = find_sqlQuery opts fs (Some \<lparr>query = q, sort = None\<rparr>)
   \<and> createQuery fs (Some \<lparr>query = q, sort = s\<rparr>) = createQuery fs (Some \<lparr>query = q, sort = None\<rparr>)"
proof -
  have c: "createQuery fs (Some \<lparr>query = q, sort = s\<rparr>) = createQuery fs (Some \<lparr>query = q, sort = None\<rparr>)"
    for fs q s
    by (simp add: createQuery_def)
  have f: "find_sqlQuery opts fs (Some \<lparr>query = q, sort = s\<rparr>)
      = find_sqlQuery opts fs (Some \<lparr>query = q, sort = None\<rparr>)"
    by (cases q) (simp_all add: find_sqlQuery_def c [of _ _ s])
  have "createQuery example_fields
     (Some \<lparr>query = Some [(''age'', Obj [(''$gte'', Num 18)])],
            sort = Some (SortArr [''-age'', ''name''])\<rparr>) = Inr ''WHERE age >= 18''"
    by (simp add: createQuery_one_entry resolve_key_def render_condition_def concat_value_def
        to_text_def example_fields_def show_int_def)
  then have "find_sqlQuery \<lparr>schema = Some ''ADDTAX'', collection = Some ''TAXD0000''\<rparr> example_fields
     (Some \<lparr>query = Some [(''age'', Obj [(''$gte'', Num 18)])],
            sort = Some (SortArr [''-age'', ''name''])\<rparr>)
   = Inr ''select * from ADDTAX.TAXD0000 WHERE age >= 18''"
    by (simp add: find_sqlQuery_def opt_text_def)
  with f c [of fs q s] show ?thesis
    by simp
qed

section \<open>Identifier round trips\<close>

text \<open>
  C7. The claim asks that converting a string to the native identifier and back
  yields the string, and a native identifier to a string and back the identifier.
  The identifiers of this adapter are strings (the \<^verbatim>\<open>_ID\<close> column), and on every string
  \<^verbatim>\<open>stringToObjectID\<close> throws a ReferenceError, so neither round trip returns.
\<close>

theorem roundtrip_reference_error:
  "string_roundtrip (Str s) = Inl ReferenceError \<and> native_roundtrip (Str s) = Inl ReferenceError"
  by (simp add: string_roundtrip_def native_roundtrip_def objectIDToString_def)

section \<open>Backend failures\<close>

text \<open>
  C8. The claim asks that a failure of the backend reaches the caller. With a backend
  that fails on every statement, and with no connection at all, \<^verbatim>\<open>count\<close> returns \<open>0\<close>;
  with a failing backend \<^verbatim>\<open>insert\<close> returns the entity it was given whenever it has
  built its statement, as for the entity \<^verbatim>\<open>{name: "Ann", age: 30}\<close> over the example
  fields. The only error that leaves \<^verbatim>\<open>insert\<close> is the TypeError of building the
  statement from a value that has no text, which is no error of the backend.
\<close>

theorem backend_error_swallowed:
  "count_hdb opts (Some (\<lambda>sql. Inl err)) ps = Num 0
   \<and> insert_hdb opts fs (Some (\<lambda>sql. Inl err)) entity =
       (case insert_sqlQuery opts fs entity of Inl e \<Rightarrow> Inl e | Inr sql \<Rightarrow> Inr entity)
   \<and> (insert_hdb opts fs (Some (\<lambda>sql. Inl err)) entity = Inr entity
      \<or> insert_hdb opts fs (Some (\<lambda>sql. Inl err)) entity = Inl TypeError)
   \<and> insert_hdb opts example_fields (Some (\<lambda>sql. Inl err)) [(''name'', Str ''Ann''), (''age'', Num 30)]
       = Inr [(''name'', Str ''Ann''), (''age'', Num 30)]
   \<and> count_hdb opts None ps = Num 0"
proof -
  have i: "insert_hdb opts fs (Some (\<lambda>sql. Inl err)) entity =
       (case insert_sqlQuery opts fs entity of Inl e \<Rightarrow> Inl e | Inr sql \<Rightarrow> Inr entity)"
    for fs entity
    by (simp add: insert_hdb_def exec_on_def split: sum.split)
  have "insert_hdb opts fs (Some (\<lambda>sql. Inl err)) entity = Inr entity
      \<or> insert_hdb opts fs (Some (\<lambda>sql. Inl err)) entity = Inl TypeError"
    by (cases "insert_sqlQuery opts fs entity") (simp_all add: i insert_sqlQuery_error)
  moreover have "\<exists>sql. insert_sqlQuery opts example_fields [(''name'', Str ''Ann''), (''age'', Num 30)]
      = Inr sql"
    by (simp add: insert_sqlQuery_def insert_field_def read_entity_def to_text_def
        object_prototype_text_def example_fields_def)
  ultimately show ?thesis
    using i by (auto simp add: count_hdb_def exec_on_def)
qed

section \<open>One connection\<close>



section \<open>The cache-clean event\<close>

text \<open>
  C10. For every options object that does not set \<^verbatim>\<open>cache.enabled\<close> (the property reads
  as \<^verbatim>\<open>undefined\<close>, also when there are no options or no \<^verbatim>\<open>cache\<close> entry), the schema
  \<^verbatim>\<open>DatabaseMixin\<close> returns has no \<^verbatim>\<open>events\<close> block; and where no \<^verbatim>\<open>cache\<close> entry is
  passed, the merged options hold \<^verbatim>\<open>cache.enable = true\<close>, the property the defaults
  set, which the test for the block does not read.
\<close>

theorem DatabaseMixin_default_no_event:
  assumes "get_prop (passed_cache mixinOpts) ''enabled'' = Undefined"
  shows "DatabaseMixin this_name mixinOpts = Inr \<lparr>name = [], events = None\<rparr>
       \<and> (passed_cache mixinOpts = Undefined \<longrightarrow>
            get_prop (get_prop (Obj (defaultsDeep mixinOpts)) ''cache'') ''enable'' = Bool True)"
proof -
  have "get_prop (get_prop (Obj (defaultsDeep mixinOpts)) ''cache'') ''enabled'' = Undefined"
  proof (cases "passed_cache mixinOpts")
    case (Obj inner)
    with assms show ?thesis
      by (simp add: defaultsDeep_cache cache_defaults_enabled del: get_prop.simps(1))
  next
    case Undefined
    then show ?thesis
      by (simp only: defaultsDeep_cache jsval.case) (simp add: cache_defaults_def)
  qed (simp_all add: defaultsDeep_cache del: get_prop.simps(1))
  then have "DatabaseMixin this_name mixinOpts = Inr \<lparr>name = [], events = None\<rparr>"
    by (simp add: DatabaseMixin_def Let_def del: get_prop.simps(1))
  moreover have "get_prop (get_prop (Obj (defaultsDeep mixinOpts)) ''cache'') ''enable'' = Bool True"
    if "passed_cache mixinOpts = Undefined"
    using that by (simp only: defaultsDeep_cache jsval.case) (simp add: cache_defaults_def)
  ultimately show ?thesis by blast
qed

text \<open>C10 without options: the defaults alone.\<close>

theorem DatabaseMixin_default_no_event_witness:
  "DatabaseMixin None None = Inr \<lparr>name = [], events = None\<rparr>
   \<and> get_prop (get_prop (Obj (defaultsDeep None)) ''cache'') ''enable'' = Bool True"
proof -
  have "get_prop (passed_cache None) ''enabled'' = Undefined"
    by (simp add: passed_cache_def)
  from DatabaseMixin_default_no_event [OF this, of None] show ?thesis
    by (simp add: passed_cache_def)
qed

end
